theory Spec2Isabelle
  imports Main
begin

section \<open>Secure CSV writer: values and their text\<close>

text \<open>
  The module \<^verbatim>\<open>secure_csv_writer.py\<close> sanitizes cell values against formula injection,
  validates a target path, and writes or appends rows with \<^verbatim>\<open>csv.DictWriter\<close>.
  Python strings are modelled as \<^typ>\<open>string\<close>. The characters that have no literal in a
  HOL string are named here.
\<close>

abbreviation APOSTROPHE :: char where "APOSTROPHE \<equiv> CHR 0x27"
abbreviation DQUOTE :: char where "DQUOTE \<equiv> CHR 0x22"
abbreviation TAB :: char where "TAB \<equiv> CHR 0x09"
abbreviation CR :: char where "CR \<equiv> CHR 0x0D"
abbreviation LF :: char where "LF \<equiv> CHR 0x0A"
abbreviation NUL :: char where "NUL \<equiv> CHR 0x00"

text \<open>
  A cell value is \<^verbatim>\<open>Any\<close> in the source. The model has \<^verbatim>\<open>None\<close>, strings, integers and
  booleans with the text \<^verbatim>\<open>str()\<close> gives them; a value of any other type (a float, say) is
  \<open>PObject s\<close>, carrying the text \<open>s\<close> that \<^verbatim>\<open>str()\<close> returns for it.
\<close>

datatype pyval = PNone | PStr string | PInt int | PBool bool | PObject string

definition digit_char :: "nat \<Rightarrow> char" where
  "digit_char d = ''0123456789'' ! (d mod 10)"

function str_nat :: "nat \<Rightarrow> string" where
  "str_nat n = (if n < 10 then [digit_char n] else str_nat (n div 10) @ [digit_char (n mod 10)])"
  by pat_completeness auto
termination
  by (relation "measure (\<lambda>n. n)") auto

declare str_nat.simps [simp del]

definition str_int :: "int \<Rightarrow> string" where
  "str_int i = (if i < 0 then CHR ''-'' # str_nat (nat (- i)) else str_nat (nat i))"

fun py_str :: "pyval \<Rightarrow> string" where
  "py_str PNone = ''None''"
| "py_str (PStr s) = s"
| "py_str (PInt i) = str_int i"
| "py_str (PBool b) = (if b then ''True'' else ''False'')"
| "py_str (PObject s) = s"

subsection \<open>\<^verbatim>\<open>str.startswith\<close> and the substring test\<close>

definition startswith :: "string \<Rightarrow> string \<Rightarrow> bool" where
  "startswith s p = (take (length p) s = p)"

text \<open>\<^verbatim>\<open>s.startswith(prefixes)\<close> with a tuple: some prefix of the tuple starts \<open>s\<close>.\<close>

definition startswith_any :: "string \<Rightarrow> string list \<Rightarrow> bool" where
  "startswith_any s ps = list_ex (startswith s) ps"

text \<open>\<^verbatim>\<open>sub in s\<close>: \<open>sub\<close> starts at some position of \<open>s\<close>.\<close>

fun py_in :: "string \<Rightarrow> string \<Rightarrow> bool" where
  "py_in sub [] = (sub = [])"
| "py_in sub (c # cs) = (startswith (c # cs) sub \<or> py_in sub cs)"

subsection \<open>\<^verbatim>\<open>sanitize_cell\<close>\<close>

definition dangerous_prefixes :: "string list" where
  "dangerous_prefixes = [''='', ''+'', ''-'', ''@'', [TAB], [CR], [LF]]"

definition sanitize_cell :: "pyval \<Rightarrow> string" where
  "sanitize_cell v =
     (if v = PNone then []
      else let str_value = py_str v
           in if startswith_any str_value dangerous_prefixes
              then APOSTROPHE # str_value
              else str_value)"

section \<open>Path validation\<close>

text \<open>
  A resolved \<^verbatim>\<open>Path\<close> is absolute and normalized: it is modelled as the list of its
  components below the root. \<^verbatim>\<open>Path.name\<close> is the last component, \<^verbatim>\<open>Path.parent\<close> drops it.
\<close>

type_synonym path = "string list"

definition path_name :: "path \<Rightarrow> string" where
  "path_name p = (case rev p of [] \<Rightarrow> [] | n # _ \<Rightarrow> n)"

definition parent :: "path \<Rightarrow> path" where
  "parent p = butlast p"

text \<open>\<^verbatim>\<open>str.rfind(c)\<close>: the highest index of \<open>c\<close>, or \<open>-1\<close>.\<close>

fun rfind :: "string \<Rightarrow> char \<Rightarrow> int" where
  "rfind [] c = - 1"
| "rfind (x # xs) c =
     (let r = rfind xs c in if 0 \<le> r then r + 1 else if x = c then 0 else - 1)"

text \<open>
  \<^verbatim>\<open>PurePath.suffix\<close>: the name from its last dot on, unless that dot is the first or the
  last character of the name (or there is none).
\<close>

definition path_suffix :: "path \<Rightarrow> string" where
  "path_suffix p =
     (let name = path_name p; i = rfind name (CHR ''.'')
      in if 0 < i \<and> i < int (length name) - 1 then drop (nat i) name else [])"

text \<open>\<^verbatim>\<open>str.lower\<close> on the characters of the model: the letters A to Z have a lower case.\<close>

definition lower_char :: "char \<Rightarrow> char" where
  "lower_char c =
     (case map_of (zip ''ABCDEFGHIJKLMNOPQRSTUVWXYZ'' ''abcdefghijklmnopqrstuvwxyz'') c of
        Some l \<Rightarrow> l
      | None \<Rightarrow> c)"

definition lower :: "string \<Rightarrow> string" where
  "lower s = map lower_char s"

subsection \<open>Errors and the host\<close>

text \<open>
  \<open>HostError s\<close> is an \<^verbatim>\<open>OSError\<close> raised by the operating system, with its text \<open>s\<close>.
  The exceptions that leave the module are: the three \<^verbatim>\<open>ValueError\<close>s and the
  \<^verbatim>\<open>FileNotFoundError\<close> the module raises itself, told apart by their message; an error of
  the host that propagates as it is (\<open>OSError\<close>); the \<^verbatim>\<open>IOError\<close> of
  \<^verbatim>\<open>raise IOError(...) from e\<close>, which carries its message and its cause \<open>e\<close>;
  \<^verbatim>\<open>csv.Error\<close> of the reader; and what \<^verbatim>\<open>Path.resolve()\<close> raises, among them a
  \<^verbatim>\<open>RuntimeError\<close>.
\<close>

datatype host_error = HostError string

fun host_error_text :: "host_error \<Rightarrow> string" where
  "host_error_text (HostError s) = s"

datatype error =
    ValueError string
  | FileNotFoundError string
  | OSError host_error
  | IOError string host_error
  | CsvError string
  | RuntimeError string

text \<open>
  \<^verbatim>\<open>Path(filepath).resolve()\<close> is non-strict, so a path comes back whether or not the file
  exists; but it raises for a string with an embedded NUL character (a \<^verbatim>\<open>ValueError\<close>),
  for a symbolic link that loops (a \<^verbatim>\<open>RuntimeError\<close> with its message), and when the
  operating system refuses the resolution (its \<^verbatim>\<open>OSError\<close>, for a working directory
  that is gone).
\<close>

datatype resolve_failure = EmbeddedNull | SymlinkLoop string | ResolveRefused host_error

fun resolve_error :: "resolve_failure \<Rightarrow> error" where
  "resolve_error EmbeddedNull = ValueError ''embedded null byte''"
| "resolve_error (SymlinkLoop msg) = RuntimeError msg"
| "resolve_error (ResolveRefused e) = OSError e"

text \<open>The I/O steps of the two operations, in the order the source performs them.\<close>

datatype io_step =
    Mkdir | OpenWrite | WriteRows | Chmod
  | OpenRead | ReadHeader | OpenAppend | AppendRows

text \<open>
  What the module takes from its host: \<^verbatim>\<open>Path(filepath).resolve()\<close>, which returns the
  resolved path or fails; \<^verbatim>\<open>os.name\<close>; the mode bits a newly created file gets; and for
  every I/O step whether the operating system refuses it and with which error.
\<close>

record host =
  resolve :: "string \<Rightarrow> resolve_failure + path"
  os_name :: string
  create_mode :: nat
  fault :: "io_step \<Rightarrow> host_error option"

text \<open>
  The first statement of \<^verbatim>\<open>validate_filepath\<close> resolves the path, before the raw string
  is looked at: what the resolution raises leaves the function as it is.
\<close>

definition validate_filepath :: "host \<Rightarrow> string \<Rightarrow> error + path" where
  "validate_filepath h filepath =
     (case resolve h filepath of
        Inl f \<Rightarrow> Inl (resolve_error f)
      | Inr path \<Rightarrow>
          if py_in ''..'' filepath
          then Inl (ValueError ''Path traversal detected in filepath'')
          else if lower (path_suffix path) \<noteq> ''.csv''
          then Inl (ValueError ''File must have .csv extension'')
          else Inr path)"

section \<open>The file system\<close>

text \<open>
  The file system maps a resolved path to a directory or to a regular file with its text
  and its mode bits. The root is always a directory. The file's text is what
  the \<^verbatim>\<open>encoding\<close> argument encodes and decodes; the model keeps the text.
\<close>

datatype node = Dir | File string nat

type_synonym fs = "path \<Rightarrow> node option"

fun is_file :: "node option \<Rightarrow> bool" where
  "is_file (Some (File _ _)) = True"
| "is_file _ = False"

definition ancestors :: "path \<Rightarrow> path list" where
  "ancestors d = map (\<lambda>n. take n d) [1..<Suc (length d)]"

text \<open>
  \<^verbatim>\<open>Path.mkdir(parents=True, exist_ok=True)\<close>: fails when the host refuses or a regular
  file is in the way, and nothing is created then; otherwise every missing directory of
  the chain is created and existing ones are left alone.
\<close>

definition mkdir_parents :: "host \<Rightarrow> path \<Rightarrow> fs \<Rightarrow> host_error + fs" where
  "mkdir_parents h d s =
     (case fault h Mkdir of
        Some e \<Rightarrow> Inl e
      | None \<Rightarrow>
          if list_ex (\<lambda>p. is_file (s p)) (ancestors d)
          then Inl (HostError ''Not a directory'')
          else Inr (fold (\<lambda>p s'. if s' p = None then s'(p \<mapsto> Dir) else s') (ancestors d) s))"

text \<open>
  \<^verbatim>\<open>open(path, 'w')\<close>: an existing file is truncated and keeps its mode, a missing one is
  created empty.
\<close>

definition open_write :: "host \<Rightarrow> path \<Rightarrow> fs \<Rightarrow> host_error + fs" where
  "open_write h p s =
     (case fault h OpenWrite of
        Some e \<Rightarrow> Inl e
      | None \<Rightarrow>
          (case s p of
             Some Dir \<Rightarrow> Inl (HostError ''Is a directory'')
           | Some (File _ m) \<Rightarrow> Inr (s(p \<mapsto> File [] m))
           | None \<Rightarrow> Inr (s(p \<mapsto> File [] (create_mode h)))))"

text \<open>
  Writing through an open file, for \<open>WriteRows\<close> and \<open>AppendRows\<close>: the text is added at the
  end of the file. A refused write leaves the file as the open left it.
\<close>

definition write_text :: "host \<Rightarrow> io_step \<Rightarrow> path \<Rightarrow> string \<Rightarrow> fs \<Rightarrow> host_error + fs" where
  "write_text h step p text s =
     (case fault h step of
        Some e \<Rightarrow> Inl e
      | None \<Rightarrow>
          (case s p of
             Some (File c m) \<Rightarrow> Inr (s(p \<mapsto> File (c @ text) m))
           | _ \<Rightarrow> Inl (HostError ''Bad file descriptor'')))"

definition chmod :: "host \<Rightarrow> path \<Rightarrow> nat \<Rightarrow> fs \<Rightarrow> host_error + fs" where
  "chmod h p perms s =
     (case fault h Chmod of
        Some e \<Rightarrow> Inl e
      | None \<Rightarrow>
          (case s p of
             Some (File c _) \<Rightarrow> Inr (s(p \<mapsto> File c perms))
           | Some Dir \<Rightarrow> Inr s
           | None \<Rightarrow> Inl (HostError ''No such file or directory'')))"

section \<open>The CSV writer\<close>

text \<open>
  \<^verbatim>\<open>csv.writer\<close> in the default dialect with \<^verbatim>\<open>QUOTE_ALL\<close>: every field is wrapped in
  double quotes, a double quote inside is doubled, fields are joined by commas and the
  record ends with CR LF. A record with no field is the terminator alone.
\<close>

definition quote_field :: "string \<Rightarrow> string" where
  "quote_field s =
     DQUOTE # concat (map (\<lambda>c. if c = DQUOTE then [DQUOTE, DQUOTE] else [c]) s) @ [DQUOTE]"

fun join :: "string \<Rightarrow> string list \<Rightarrow> string" where
  "join sep [] = []"
| "join sep [x] = x"
| "join sep (x # y # ys) = x @ sep @ join sep (y # ys)"

definition writerow :: "string list \<Rightarrow> string" where
  "writerow record_fields = join '','' (map quote_field record_fields) @ [CR, LF]"

subsection \<open>Dictionaries\<close>

text \<open>
  A \<^verbatim>\<open>dict\<close> keeps its keys in insertion order: an association list with distinct keys.
  Storing under a key already present replaces the value where the key stands.
\<close>

type_synonym ('k, 'v) dict = "('k \<times> 'v) list"

fun dict_set :: "('k, 'v) dict \<Rightarrow> 'k \<Rightarrow> 'v \<Rightarrow> ('k, 'v) dict" where
  "dict_set [] k v = [(k, v)]"
| "dict_set ((k', v') # d) k v =
     (if k' = k then (k', v) # d else (k', v') # dict_set d k v)"

text \<open>\<^verbatim>\<open>dict(pairs)\<close> and a dict comprehension: the pairs are stored one after the other.\<close>

definition dict_of :: "('k \<times> 'v) list \<Rightarrow> ('k, 'v) dict" where
  "dict_of kvs = foldl (\<lambda>d (k, v). dict_set d k v) [] kvs"

definition dict_get :: "('k, 'v) dict \<Rightarrow> 'k \<Rightarrow> 'v \<Rightarrow> 'v" where
  "dict_get d k dflt = (case map_of d k of None \<Rightarrow> dflt | Some v \<Rightarrow> v)"

type_synonym row = "(string, pyval) dict"

text \<open>
  \<^verbatim>\<open>{sanitize_cell(key): sanitize_cell(value) for key, value in row.items()}\<close>
\<close>

definition sanitize_row :: "row \<Rightarrow> (string, string) dict" where
  "sanitize_row r = dict_of (map (\<lambda>(key, val). (sanitize_cell (PStr key), sanitize_cell val)) r)"

text \<open>
  \<^verbatim>\<open>DictWriter\<close> with \<^verbatim>\<open>extrasaction='ignore'\<close> and the default \<^verbatim>\<open>restval=''\<close>: a row is
  the list of its values under the field names, blank where a name is missing; keys that
  are no field name are not looked at. The header is the row that maps every field name
  to itself.
\<close>

definition dict_to_list :: "string list \<Rightarrow> (string, string) dict \<Rightarrow> string list" where
  "dict_to_list fieldnames rowdict = map (\<lambda>key. dict_get rowdict key []) fieldnames"

definition writeheader :: "string list \<Rightarrow> string" where
  "writeheader fieldnames = writerow (dict_to_list fieldnames (dict_of (zip fieldnames fieldnames)))"

definition writerows :: "string list \<Rightarrow> (string, string) dict list \<Rightarrow> string" where
  "writerows fieldnames rowdicts = concat (map (\<lambda>r. writerow (dict_to_list fieldnames r)) rowdicts)"

section \<open>\<^verbatim>\<open>write_csv_secure\<close>\<close>

text \<open>
  The result is the exception raised (or \<open>Inr ()\<close>) together with the file system the
  call leaves behind. \<open>fieldnames = None\<close> is the default argument.
\<close>

definition io_error :: "host_error \<Rightarrow> error" where
  "io_error e = IOError (''Failed to write CSV file: '' @ host_error_text e) e"

definition write_csv_secure ::
  "host \<Rightarrow> fs \<Rightarrow> string \<Rightarrow> row list \<Rightarrow> string list option \<Rightarrow> nat \<Rightarrow> (error + unit) \<times> fs"
where
  "write_csv_secure h s filepath data fieldnames file_permissions =
     (case data of
        [] \<Rightarrow> (Inl (ValueError ''Data cannot be empty''), s)
      | row0 # _ \<Rightarrow>
          (case validate_filepath h filepath of
             Inl e \<Rightarrow> (Inl e, s)
           | Inr safe_path \<Rightarrow>
               let fieldnames' = (case fieldnames of None \<Rightarrow> map fst row0 | Some f \<Rightarrow> f)
               in (case mkdir_parents h (parent safe_path) s of
                     Inl e \<Rightarrow> (Inl (OSError e), s)
                   | Inr s1 \<Rightarrow>
                       let sanitized_data = map sanitize_row data;
                           safe_fieldnames = map (\<lambda>f. sanitize_cell (PStr f)) fieldnames'
                       in (case open_write h safe_path s1 of
                             Inl e \<Rightarrow> (Inl (io_error e), s1)
                           | Inr s2 \<Rightarrow>
                               (case write_text h WriteRows safe_path
                                       (writeheader safe_fieldnames @
                                        writerows safe_fieldnames sanitized_data) s2 of
                                  Inl e \<Rightarrow> (Inl (io_error e), s2)
                                | Inr s3 \<Rightarrow>
                                    if os_name h \<noteq> ''nt''
                                    then (case chmod h safe_path file_permissions s3 of
                                            Inl e \<Rightarrow> (Inl (io_error e), s3)
                                          | Inr s4 \<Rightarrow> (Inr (), s4))
                                    else (Inr (), s3))))))"


section \<open>The CSV reader\<close>

text \<open>
  A file opened with \<^verbatim>\<open>newline=''\<close> is iterated line by line; a line ends after LF, after
  CR LF, or after a CR that no LF follows, and keeps its ending. The last line may have
  none.
\<close>

fun split_lines :: "string \<Rightarrow> string \<Rightarrow> string list" where
  "split_lines acc [] = (if acc = [] then [] else [acc])"
| "split_lines acc [c] = [acc @ [c]]"
| "split_lines acc (c # d # ds) =
     (if c = LF then (acc @ [c]) # split_lines [] (d # ds)
      else if c = CR then
        (if d = LF then (acc @ [c, d]) # split_lines [] ds
         else (acc @ [c]) # split_lines [] (d # ds))
      else split_lines (acc @ [c]) (d # ds))"

text \<open>
  The state machine of \<^verbatim>\<open>csv.reader\<close> in the default dialect (delimiter comma, quote
  character double quote, \<^verbatim>\<open>doublequote\<close> on, no escape character, not strict). The
  states the default dialect cannot reach are left out. The input is a character or
  \<open>EOL\<close>, the end-of-line mark the reader feeds itself after every line. The reader's
  limit on the length of one field is not modelled.
\<close>

datatype parser_state =
    START_RECORD | START_FIELD | IN_FIELD | IN_QUOTED_FIELD | QUOTE_IN_QUOTED_FIELD | EAT_CRNL

datatype input = Ch char | EOL

record reader =
  state :: parser_state
  parsed :: "string list"
  field :: string

definition parse_save_field :: "reader \<Rightarrow> reader" where
  "parse_save_field r = r\<lparr>parsed := parsed r @ [field r], field := []\<rparr>"

definition parse_add_char :: "reader \<Rightarrow> char \<Rightarrow> reader" where
  "parse_add_char r c = r\<lparr>field := field r @ [c]\<rparr>"

text \<open>The case \<^verbatim>\<open>START_FIELD\<close>, which \<^verbatim>\<open>START_RECORD\<close> falls through to.\<close>

fun start_field :: "reader \<Rightarrow> input \<Rightarrow> reader" where
  "start_field r EOL = (parse_save_field r)\<lparr>state := START_RECORD\<rparr>"
| "start_field r (Ch c) =
     (if c = LF \<or> c = CR then (parse_save_field r)\<lparr>state := EAT_CRNL\<rparr>
      else if c = DQUOTE then r\<lparr>state := IN_QUOTED_FIELD\<rparr>
      else if c = CHR '','' then parse_save_field r
      else (parse_add_char r c)\<lparr>state := IN_FIELD\<rparr>)"

fun parse_process_char :: "reader \<Rightarrow> input \<Rightarrow> string + reader" where
  "parse_process_char r EOL =
     (case state r of
        START_RECORD \<Rightarrow> Inr r
      | START_FIELD \<Rightarrow> Inr (start_field r EOL)
      | IN_FIELD \<Rightarrow> Inr ((parse_save_field r)\<lparr>state := START_RECORD\<rparr>)
      | IN_QUOTED_FIELD \<Rightarrow> Inr r
      | QUOTE_IN_QUOTED_FIELD \<Rightarrow> Inr ((parse_save_field r)\<lparr>state := START_RECORD\<rparr>)
      | EAT_CRNL \<Rightarrow> Inr (r\<lparr>state := START_RECORD\<rparr>))"
| "parse_process_char r (Ch c) =
     (case state r of
        START_RECORD \<Rightarrow>
          if c = LF \<or> c = CR then Inr (r\<lparr>state := EAT_CRNL\<rparr>)
          else Inr (start_field (r\<lparr>state := START_FIELD\<rparr>) (Ch c))
      | START_FIELD \<Rightarrow> Inr (start_field r (Ch c))
      | IN_FIELD \<Rightarrow>
          if c = LF \<or> c = CR then Inr ((parse_save_field r)\<lparr>state := EAT_CRNL\<rparr>)
          else if c = CHR '','' then Inr ((parse_save_field r)\<lparr>state := START_FIELD\<rparr>)
          else Inr (parse_add_char r c)
      | IN_QUOTED_FIELD \<Rightarrow>
          if c = DQUOTE then Inr (r\<lparr>state := QUOTE_IN_QUOTED_FIELD\<rparr>)
          else Inr (parse_add_char r c)
      | QUOTE_IN_QUOTED_FIELD \<Rightarrow>
          if c = DQUOTE then Inr ((parse_add_char r c)\<lparr>state := IN_QUOTED_FIELD\<rparr>)
          else if c = CHR '','' then Inr ((parse_save_field r)\<lparr>state := START_FIELD\<rparr>)
          else if c = LF \<or> c = CR then Inr ((parse_save_field r)\<lparr>state := EAT_CRNL\<rparr>)
          else Inr ((parse_add_char r c)\<lparr>state := IN_FIELD\<rparr>)
      | EAT_CRNL \<Rightarrow>
          if c = LF \<or> c = CR then Inr r
          else Inl ''new-line character seen in unquoted field'')"

text \<open>A line is fed character by character, then the end-of-line mark.\<close>

fun process_line :: "reader \<Rightarrow> string \<Rightarrow> string + reader" where
  "process_line r [] = parse_process_char r EOL"
| "process_line r (c # cs) =
     (case parse_process_char r (Ch c) of
        Inl e \<Rightarrow> Inl e
      | Inr r' \<Rightarrow> process_line r' cs)"

text \<open>
  \<^verbatim>\<open>next(reader)\<close>: lines are consumed until the parser is back at the start of a record.
  When the input ends inside a record the open field is saved and the record returned;
  when it ends before one, there is no record (\<^verbatim>\<open>StopIteration\<close>, here \<open>None\<close>).
\<close>

fun read_record :: "reader \<Rightarrow> string list \<Rightarrow> string + string list option" where
  "read_record r [] =
     (if field r \<noteq> [] \<or> state r = IN_QUOTED_FIELD
      then Inr (Some (parsed (parse_save_field r)))
      else Inr None)"
| "read_record r (l # ls) =
     (case process_line r l of
        Inl e \<Rightarrow> Inl e
      | Inr r' \<Rightarrow>
          if state r' = START_RECORD then Inr (Some (parsed r'))
          else read_record r' ls)"

text \<open>
  \<^verbatim>\<open>csv.DictReader(csvfile).fieldnames\<close>: the first record of the file as the reader
  gives it (an empty list for an empty first line), \<^verbatim>\<open>None\<close> for an empty file.
\<close>

definition dictreader_fieldnames :: "string \<Rightarrow> string + string list option" where
  "dictreader_fieldnames text =
     read_record \<lparr>state = START_RECORD, parsed = [], field = []\<rparr> (split_lines [] text)"

section \<open>\<^verbatim>\<open>append_csv_secure\<close>\<close>

text \<open>Opening the file for reading and reading its first record's text.\<close>

definition read_text :: "host \<Rightarrow> path \<Rightarrow> fs \<Rightarrow> host_error + string" where
  "read_text h p s =
     (case fault h OpenRead of
        Some e \<Rightarrow> Inl e
      | None \<Rightarrow>
          (case s p of
             Some (File c _) \<Rightarrow>
               (case fault h ReadHeader of Some e \<Rightarrow> Inl e | None \<Rightarrow> Inr c)
           | Some Dir \<Rightarrow> Inl (HostError ''Is a directory'')
           | None \<Rightarrow> Inl (HostError ''No such file or directory'')))"

text \<open>\<^verbatim>\<open>open(path, 'a')\<close>: the file is kept as it is; a missing one is created empty.\<close>

definition open_append :: "host \<Rightarrow> path \<Rightarrow> fs \<Rightarrow> host_error + fs" where
  "open_append h p s =
     (case fault h OpenAppend of
        Some e \<Rightarrow> Inl e
      | None \<Rightarrow>
          (case s p of
             Some Dir \<Rightarrow> Inl (HostError ''Is a directory'')
           | Some (File _ _) \<Rightarrow> Inr s
           | None \<Rightarrow> Inr (s(p \<mapsto> File [] (create_mode h)))))"

definition append_csv_secure ::
  "host \<Rightarrow> fs \<Rightarrow> string \<Rightarrow> row list \<Rightarrow> (error + unit) \<times> fs"
where
  "append_csv_secure h s filepath data =
     (case data of
        [] \<Rightarrow> (Inl (ValueError ''Data cannot be empty''), s)
      | _ # _ \<Rightarrow>
          (case validate_filepath h filepath of
             Inl e \<Rightarrow> (Inl e, s)
           | Inr safe_path \<Rightarrow>
               if s safe_path = None
               then (Inl (FileNotFoundError (''CSV file does not exist: '' @ filepath)), s)
               else
                 (case read_text h safe_path s of
                    Inl e \<Rightarrow> (Inl (OSError e), s)
                  | Inr text \<Rightarrow>
                      (case dictreader_fieldnames text of
                         Inl m \<Rightarrow> (Inl (CsvError m), s)
                       | Inr None \<Rightarrow> (Inl (ValueError ''Existing CSV file has no headers''), s)
                       | Inr (Some []) \<Rightarrow>
                           (Inl (ValueError ''Existing CSV file has no headers''), s)
                       | Inr (Some (f # fs)) \<Rightarrow>
                           let fieldnames = f # fs;
                               sanitized_data = map sanitize_row data
                           in (case open_append h safe_path s of
                                 Inl e \<Rightarrow> (Inl (OSError e), s)
                               | Inr s1 \<Rightarrow>
                                   (case write_text h AppendRows safe_path
                                           (writerows fieldnames sanitized_data) s1 of
                                      Inl e \<Rightarrow> (Inl (OSError e), s1)
                                    | Inr s2 \<Rightarrow> (Inr (), s2)))))))"

section \<open>A host without symbolic links\<close>

text \<open>
  For the scenarios: a POSIX host whose file system has no symbolic links, so that
  resolving a path is joining it to the working directory and collapsing \<^verbatim>\<open>.\<close> and
  \<^verbatim>\<open>..\<close>; a string with an embedded NUL character is refused, as by every POSIX host.
  No I/O step is refused.
\<close>

fun split_at :: "char \<Rightarrow> string \<Rightarrow> string \<Rightarrow> string list" where
  "split_at sep acc [] = [acc]"
| "split_at sep acc (c # cs) =
     (if c = sep then acc # split_at sep [] cs else split_at sep (acc @ [c]) cs)"

fun normalize :: "path \<Rightarrow> string list \<Rightarrow> path" where
  "normalize acc [] = acc"
| "normalize acc (c # cs) =
     (if c = [] \<or> c = ''.'' then normalize acc cs
      else if c = ''..'' then normalize (butlast acc) cs
      else normalize (acc @ [c]) cs)"

definition posix_resolve :: "path \<Rightarrow> string \<Rightarrow> resolve_failure + path" where
  "posix_resolve cwd raw =
     (if NUL \<in> set raw then Inl EmbeddedNull
      else Inr (normalize (if startswith raw ''/'' then [] else cwd)
                  (split_at (CHR ''/'') [] raw)))"

definition posix_host :: "path \<Rightarrow> host" where
  "posix_host cwd =
     \<lparr>resolve = posix_resolve cwd, os_name = ''posix'', create_mode = 420,
      fault = (\<lambda>_. None)\<rparr>"

text \<open>A file system that holds the working directory \<^verbatim>\<open>/work\<close> and nothing else.\<close>

definition work_fs :: fs where
  "work_fs = [[] \<mapsto> Dir, [''work''] \<mapsto> Dir]"

section \<open>Notions of the statements\<close>

text \<open>The set of first characters that trigger the apostrophe.\<close>

definition dangerous_chars :: "char set" where
  "dangerous_chars = {CHR ''='', CHR ''+'', CHR ''-'', CHR ''@'', TAB, CR, LF}"

text \<open>The text of a regular file, for reading a file system after a call.\<close>

definition file_text :: "node option \<Rightarrow> string option" where
  "file_text n = (case n of Some (File c _) \<Rightarrow> Some c | _ \<Rightarrow> None)"

text \<open>
  The projection of a row on the columns in which the keys of the row are taken as they
  are and only the values are sanitized: the reading of appending in which column names
  are not sanitized.
\<close>

definition literal_projection :: "string list \<Rightarrow> row \<Rightarrow> string list" where
  "literal_projection fieldnames r =
     map (\<lambda>c. case map_of r c of None \<Rightarrow> [] | Some v \<Rightarrow> sanitize_cell v) fieldnames"

text \<open>
  The projection in which the keys of the row are sanitized too: a column gets the
  sanitized value of the last item of the row whose sanitized key is the column's name,
  and is blank when there is none.
\<close>

definition sanitized_projection :: "string list \<Rightarrow> row \<Rightarrow> string list" where
  "sanitized_projection fieldnames r =
     map (\<lambda>c. case find (\<lambda>(key, val). sanitize_cell (PStr key) = c) (rev r) of
                None \<Rightarrow> []
              | Some (key, val) \<Rightarrow> sanitize_cell val) fieldnames"

text \<open>
  A call is rejected with the kind io-failure for the cause \<open>e\<close> when it raises the
  \<^verbatim>\<open>IOError\<close> that wraps \<open>e\<close>.
\<close>

definition rejects_io_failure :: "error + unit \<Rightarrow> host_error \<Rightarrow> bool" where
  "rejects_io_failure r e = (case r of Inl (IOError msg cause) \<Rightarrow> cause = e | _ \<Rightarrow> False)"

text \<open>The host of the scenarios, except that one I/O step is refused.\<close>

definition refusing_host :: "io_step \<Rightarrow> host" where
  "refusing_host step =
     (posix_host [''work''])
       \<lparr>fault := (\<lambda>st. if st = step then Some (HostError ''Permission denied'') else None)\<rparr>"

section \<open>Properties of the sanitizer\<close>

lemma startswith_single: "startswith s [c] \<longleftrightarrow> (\<exists>t. s = c # t)"
  by (cases s) (auto simp: startswith_def)

lemma startswith_any_dangerous:
  "startswith_any s dangerous_prefixes \<longleftrightarrow> (\<exists>c t. s = c # t \<and> c \<in> dangerous_chars)"
  unfolding startswith_any_def dangerous_prefixes_def dangerous_chars_def
  by (auto simp: startswith_single)

lemma sanitize_cell_str_fixed:
  "\<not> startswith_any t dangerous_prefixes \<Longrightarrow> sanitize_cell (PStr t) = t"
  by (simp add: sanitize_cell_def)

text \<open>
  C1. \<^verbatim>\<open>sanitize_cell(None)\<close> is the empty string. For any other value with text \<open>s\<close>:
  when \<open>s\<close> begins with one of \<open>=\<close>, \<open>+\<close>, \<open>-\<close>, \<open>@\<close>, tab, carriage return or line feed the
  result is an apostrophe followed by \<open>s\<close> unchanged, and otherwise the result is \<open>s\<close>
  unchanged.
\<close>

theorem sanitize_cell_spec:
  "sanitize_cell PNone = [] \<and>
   (v \<noteq> PNone \<longrightarrow>
      sanitize_cell v =
        (if \<exists>c t. py_str v = c # t \<and> c \<in> dangerous_chars
         then APOSTROPHE # py_str v else py_str v))"
  by (simp add: sanitize_cell_def startswith_any_dangerous Let_def)

text \<open>At a formula and at a boolean.\<close>

theorem sanitize_cell_spec_witness:
  "PStr ''=1+1'' \<noteq> PNone \<and> sanitize_cell (PStr ''=1+1'') = APOSTROPHE # ''=1+1'' \<and>
   PBool True \<noteq> PNone \<and> sanitize_cell (PBool True) = ''True''"
  using sanitize_cell_spec [of "PStr ''=1+1''"] sanitize_cell_spec [of "PBool True"]
  by (simp add: dangerous_chars_def)

lemma apostrophe_not_dangerous: "\<not> startswith_any (APOSTROPHE # s) dangerous_prefixes"
  by (simp add: startswith_any_dangerous dangerous_chars_def)

lemma empty_not_dangerous: "\<not> startswith_any [] dangerous_prefixes"
  by (simp add: startswith_any_dangerous)

text \<open>
  C3. Sanitizing is idempotent on its own output: sanitizing the string that
  \<^verbatim>\<open>sanitize_cell\<close> returned for any value returns that string again.
\<close>

theorem sanitize_cell_idempotent:
  "sanitize_cell (PStr (sanitize_cell x)) = sanitize_cell x"
proof (cases "x = PNone")
  case True
  then show ?thesis
    by (simp add: sanitize_cell_def empty_not_dangerous)
next
  case False
  show ?thesis
  proof (cases "startswith_any (py_str x) dangerous_prefixes")
    case True
    with False have "sanitize_cell x = APOSTROPHE # py_str x"
      by (simp add: sanitize_cell_def)
    then show ?thesis
      by (simp add: sanitize_cell_str_fixed apostrophe_not_dangerous)
  next
    case dangerous: False
    with False have "sanitize_cell x = py_str x"
      by (simp add: sanitize_cell_def)
    with dangerous show ?thesis
      by (simp add: sanitize_cell_str_fixed)
  qed
qed

section \<open>Properties of path validation\<close>

lemma startswith_iff: "startswith s p \<longleftrightarrow> (\<exists>v. s = p @ v)"
  unfolding startswith_def
  by (metis append_eq_conv_conj append_take_drop_id)

lemma py_in_iff: "py_in sub s \<longleftrightarrow> (\<exists>u v. s = u @ sub @ v)"
proof (induction s)
  case Nil
  then show ?case by auto
next
  case (Cons c cs)
  show ?case
  proof
    assume "py_in sub (c # cs)"
    then consider "startswith (c # cs) sub" | "py_in sub cs" by auto
    then show "\<exists>u v. c # cs = u @ sub @ v"
    proof cases
      case 1
      then obtain v where "c # cs = [] @ sub @ v" by (auto simp: startswith_iff)
      then show ?thesis by blast
    next
      case 2
      with Cons.IH obtain u v where "cs = u @ sub @ v" by blast
      then have "c # cs = (c # u) @ sub @ v" by simp
      then show ?thesis by blast
    qed
  next
    assume "\<exists>u v. c # cs = u @ sub @ v"
    then obtain u v where uv: "c # cs = u @ sub @ v" by blast
    show "py_in sub (c # cs)"
    proof (cases u)
      case Nil
      with uv have "startswith (c # cs) sub" by (auto simp: startswith_iff)
      then show ?thesis by simp
    next
      case (Cons a u')
      with uv have "cs = u' @ sub @ v" by simp
      with Cons.IH have "py_in sub cs" by blast
      then show ?thesis by simp
    qed
  qed
qed

lemma resolve_error_not_empty_data:
  "resolve_error f \<noteq> ValueError ''Data cannot be empty''"
  by (cases f) simp_all

text \<open>
  C2, as the code has it. Every raw path that the host resolves and that contains the
  two-dot sequence anywhere in its text is rejected with the path-traversal
  \<^verbatim>\<open>ValueError\<close> (the kind invalid-path), whatever it resolves to: the test reads the raw
  string, not the resolved path.
\<close>

theorem validate_filepath_two_dots:
  "resolve h filepath = Inr p \<Longrightarrow> filepath = u @ ''..'' @ v \<Longrightarrow>
   validate_filepath h filepath = Inl (ValueError ''Path traversal detected in filepath'')"
proof -
  assume r: "resolve h filepath = Inr p"
  assume "filepath = u @ ''..'' @ v"
  then have "py_in ''..'' filepath"
    unfolding py_in_iff by blast
  with r show ?thesis
    by (simp add: validate_filepath_def)
qed

text \<open>
  A raw path with two dots whose resolved path is harmless, \<^verbatim>\<open>/work/out.csv\<close>, is
  rejected all the same.
\<close>

theorem validate_filepath_two_dots_witness:
  "resolve (posix_host [''work'']) ''a/../out.csv'' = Inr [''work'', ''out.csv''] \<and>
   ''a/../out.csv'' = ''a/'' @ ''..'' @ ''/out.csv'' \<and>
   validate_filepath (posix_host [''work'']) ''a/../out.csv'' =
     Inl (ValueError ''Path traversal detected in filepath'')"
proof -
  have r: "resolve (posix_host [''work'']) ''a/../out.csv'' = Inr [''work'', ''out.csv'']"
    by (simp add: posix_host_def posix_resolve_def startswith_def)
  have t: "''a/../out.csv'' = ''a/'' @ ''..'' @ ''/out.csv''"
    by simp
  from validate_filepath_two_dots [OF r t] r t show ?thesis
    by blast
qed

text \<open>
  C2 as stated fails: the path is resolved before the raw string is tested, so a raw
  path with the two-dot sequence that the resolution refuses, here for its NUL
  character, leaves with the error of the resolution and not with the path-traversal
  error.
\<close>

theorem validate_filepath_two_dots_counterexample:
  "''a'' @ [NUL] @ ''/../b.csv'' = (''a'' @ [NUL] @ ''/'') @ ''..'' @ ''/b.csv'' \<and>
   validate_filepath (posix_host [''work'']) (''a'' @ [NUL] @ ''/../b.csv'') =
     Inl (ValueError ''embedded null byte'') \<and>
   validate_filepath (posix_host [''work'']) (''a'' @ [NUL] @ ''/../b.csv'') \<noteq>
     Inl (ValueError ''Path traversal detected in filepath'')"
  by (simp add: validate_filepath_def posix_host_def posix_resolve_def)

text \<open>
  C4, as the code has it. For every raw path that the host resolves and that is without
  the two-dot sequence: when the extension of the resolved path, lower-cased, is not
  \<^verbatim>\<open>.csv\<close> the path is rejected with the extension \<^verbatim>\<open>ValueError\<close> (the kind
  invalid-extension); otherwise validation succeeds and returns the resolved path.
\<close>

theorem validate_filepath_extension:
  "resolve h filepath = Inr p \<Longrightarrow> \<not> (\<exists>u v. filepath = u @ ''..'' @ v) \<Longrightarrow>
   validate_filepath h filepath =
     (if lower (path_suffix p) = ''.csv''
      then Inr p
      else Inl (ValueError ''File must have .csv extension''))"
  by (simp add: validate_filepath_def py_in_iff)

text \<open>An upper-case extension is accepted, another extension is not.\<close>

theorem validate_filepath_extension_witness:
  "resolve (posix_host [''work'']) ''data/Report.CSV'' = Inr [''work'', ''data'', ''Report.CSV''] \<and>
   \<not> (\<exists>u v. ''data/Report.CSV'' = u @ ''..'' @ v) \<and>
   validate_filepath (posix_host [''work'']) ''data/Report.CSV'' =
     Inr [''work'', ''data'', ''Report.CSV''] \<and>
   resolve (posix_host [''work'']) ''notes.txt'' = Inr [''work'', ''notes.txt''] \<and>
   \<not> (\<exists>u v. ''notes.txt'' = u @ ''..'' @ v) \<and>
   validate_filepath (posix_host [''work'']) ''notes.txt'' =
     Inl (ValueError ''File must have .csv extension'')"
proof -
  have ra: "resolve (posix_host [''work'']) ''data/Report.CSV'' =
      Inr [''work'', ''data'', ''Report.CSV'']"
    by (simp add: posix_host_def posix_resolve_def startswith_def)
  have rb: "resolve (posix_host [''work'']) ''notes.txt'' = Inr [''work'', ''notes.txt'']"
    by (simp add: posix_host_def posix_resolve_def startswith_def)
  have a: "\<not> (\<exists>u v. ''data/Report.CSV'' = u @ ''..'' @ v)"
    unfolding py_in_iff [symmetric] by (simp add: startswith_def)
  have b: "\<not> (\<exists>u v. ''notes.txt'' = u @ ''..'' @ v)"
    unfolding py_in_iff [symmetric] by (simp add: startswith_def)
  show ?thesis
    using ra rb a b validate_filepath_extension [OF ra a] validate_filepath_extension [OF rb b]
    by (simp add: path_suffix_def path_name_def lower_def lower_char_def)
qed

text \<open>
  C4 as stated fails: a raw path without the two-dot sequence that the resolution
  refuses, here for its NUL character, is neither rejected with the extension error nor
  accepted; the error of the resolution is raised.
\<close>

theorem validate_filepath_extension_counterexample:
  "\<not> (\<exists>u v. ''a'' @ [NUL] @ ''.csv'' = u @ ''..'' @ v) \<and>
   validate_filepath (posix_host [''work'']) (''a'' @ [NUL] @ ''.csv'') =
     Inl (ValueError ''embedded null byte'') \<and>
   validate_filepath (posix_host [''work'']) (''a'' @ [NUL] @ ''.csv'') \<noteq>
     Inl (ValueError ''File must have .csv extension'') \<and>
   (\<forall>p. validate_filepath (posix_host [''work'']) (''a'' @ [NUL] @ ''.csv'') \<noteq> Inr p)"
proof -
  have "\<not> (\<exists>u v. ''a'' @ [NUL] @ ''.csv'' = u @ ''..'' @ v)"
    unfolding py_in_iff [symmetric] by (simp add: startswith_def)
  moreover have "validate_filepath (posix_host [''work'']) (''a'' @ [NUL] @ ''.csv'') =
     Inl (ValueError ''embedded null byte'')"
    by (simp add: validate_filepath_def posix_host_def posix_resolve_def)
  ultimately show ?thesis by simp
qed

section \<open>Properties of dictionaries\<close>

lemma map_of_dict_set: "map_of (dict_set d k v) = (map_of d)(k \<mapsto> v)"
  by (induction d k v rule: dict_set.induct) auto

lemma map_of_foldl_dict_set:
  "map_of (foldl (\<lambda>d (k, v). dict_set d k v) d kvs) = map_of d ++ map_of (rev kvs)"
proof (induction kvs arbitrary: d)
  case Nil
  then show ?case by simp
next
  case (Cons kv kvs)
  obtain k v where kv: "kv = (k, v)" by (cases kv)
  show ?case
    by (auto simp: kv Cons.IH map_of_dict_set map_add_def fun_eq_iff split: option.splits)
qed

lemma map_of_dict_of: "map_of (dict_of kvs) = map_of (rev kvs)"
  by (simp add: dict_of_def map_of_foldl_dict_set)

lemma keys_dict_set: "fst ` set (dict_set d k v) = insert k (fst ` set d)"
  by (induction d k v rule: dict_set.induct) auto

lemma distinct_dict_set: "distinct (map fst d) \<Longrightarrow> distinct (map fst (dict_set d k v))"
  by (induction d k v rule: dict_set.induct) (auto simp: keys_dict_set)

lemma distinct_foldl_dict_set:
  "distinct (map fst d) \<Longrightarrow> distinct (map fst (foldl (\<lambda>d (k, v). dict_set d k v) d kvs))"
  by (induction kvs arbitrary: d) (auto simp: distinct_dict_set)

lemma distinct_dict_of: "distinct (map fst (dict_of kvs))"
  by (simp add: dict_of_def distinct_foldl_dict_set)

lemma header_row: "dict_to_list fieldnames (dict_of (zip fieldnames fieldnames)) = fieldnames"
proof -
  have "map_of (rev (zip fieldnames fieldnames)) k = Some k" if "k \<in> set fieldnames" for k
  proof -
    have "\<forall>(a, b) \<in> set (rev (zip fieldnames fieldnames)). a = b"
      by (auto simp: set_zip)
    moreover have "k \<in> fst ` set (rev (zip fieldnames fieldnames))"
      using that by (force simp: set_zip in_set_conv_nth)
    ultimately show ?thesis
      by (metis (mono_tags, lifting) case_prodD domD domI dom_map_of_conv_image_fst map_of_SomeD)
  qed
  then show ?thesis
    by (simp add: dict_to_list_def dict_get_def map_of_dict_of map_idI)
qed

lemma writeheader_eq: "writeheader fieldnames = writerow fieldnames"
  by (simp add: writeheader_def header_row)

lemma map_of_map_find:
  "map_of (map (\<lambda>(key, val). (f key, g val)) xs) c =
     (case find (\<lambda>(key, val). f key = c) xs of
        None \<Rightarrow> None
      | Some (key, val) \<Rightarrow> Some (g val))"
  by (induction xs) auto

lemma map_of_sanitize_row:
  "map_of (sanitize_row r) c =
     (case find (\<lambda>(key, val). sanitize_cell (PStr key) = c) (rev r) of
        None \<Rightarrow> None
      | Some (key, val) \<Rightarrow> Some (sanitize_cell val))"
  by (simp add: sanitize_row_def map_of_dict_of rev_map map_of_map_find)

lemma dict_to_list_sanitize_row:
  "dict_to_list fieldnames (sanitize_row r) = sanitized_projection fieldnames r"
  by (auto simp: dict_to_list_def sanitized_projection_def dict_get_def map_of_sanitize_row
      split: option.splits)

lemma distinct_sanitize_row: "distinct (map fst (sanitize_row r))"
  by (simp add: sanitize_row_def distinct_dict_of)

section \<open>Properties of writing\<close>

text \<open>
  C5. Writing an empty list of rows is rejected with the empty-data \<^verbatim>\<open>ValueError\<close> (the
  kind empty-input) and leaves the file system as it was, on every host, for every path
  and every column list: nothing is validated, created or opened before.
\<close>

theorem write_csv_secure_empty:
  "write_csv_secure h s filepath [] fieldnames file_permissions =
     (Inl (ValueError ''Data cannot be empty''), s)"
  by (simp add: write_csv_secure_def)

lemma mkdir_fold_other:
  "q \<notin> set ps \<Longrightarrow>
   fold (\<lambda>p s'. if s' p = None then s'(p \<mapsto> Dir) else s') ps s q = s q"
  by (induction ps arbitrary: s) auto

lemma length_ancestors: "q \<in> set (ancestors d) \<Longrightarrow> length q \<le> length d"
  by (auto simp: ancestors_def)

lemma not_in_ancestors_parent: "p \<notin> set (ancestors (parent p))"
proof (cases "p = []")
  case True
  then show ?thesis by (simp add: ancestors_def parent_def)
next
  case False
  then have "length (parent p) < length p"
    by (simp add: parent_def)
  then show ?thesis
    using length_ancestors [of p "parent p"] by auto
qed

lemma mkdir_parents_ok:
  assumes "fault h Mkdir = None" and "\<not> list_ex (\<lambda>q. is_file (s q)) (ancestors (parent p))"
  shows "\<exists>s1. mkdir_parents h (parent p) s = Inr s1 \<and> s1 p = s p"
  using assms by (simp add: mkdir_parents_def mkdir_fold_other not_in_ancestors_parent)

lemma write_csv_secure_success:
  assumes valid: "validate_filepath h filepath = Inr p"
    and faults: "fault h Mkdir = None" "fault h OpenWrite = None" "fault h WriteRows = None"
      "fault h Chmod = None"
    and way: "\<not> list_ex (\<lambda>q. is_file (s q)) (ancestors (parent p))"
    and nodir: "s p \<noteq> Some Dir"
    and cols: "cols = map (\<lambda>f. sanitize_cell (PStr f))
                       (case fieldnames of None \<Rightarrow> map fst row0 | Some f \<Rightarrow> f)"
  shows "fst (write_csv_secure h s filepath (row0 # rest) fieldnames file_permissions) = Inr () \<and>
    file_text (snd (write_csv_secure h s filepath (row0 # rest) fieldnames file_permissions) p) =
      Some (writerow cols @
            concat (map (\<lambda>r. writerow (sanitized_projection cols r)) (row0 # rest)))"
proof -
  from mkdir_parents_ok [OF faults(1) way]
  obtain s1 where s1: "mkdir_parents h (parent p) s = Inr s1" "s1 p = s p"
    by blast
  have rows: "writeheader cols @ writerows cols (map sanitize_row (row0 # rest)) =
      writerow cols @ concat (map (\<lambda>r. writerow (sanitized_projection cols r)) (row0 # rest))"
    by (simp add: writeheader_eq writerows_def dict_to_list_sanitize_row comp_def)
  have "\<exists>m. open_write h p s1 = Inr (s1(p \<mapsto> File [] m))"
    using nodir s1(2) faults(2)
    by (auto simp: open_write_def split: option.splits node.splits)
  then obtain m where s2: "open_write h p s1 = Inr (s1(p \<mapsto> File [] m))"
    by blast
  have s3: "write_text h WriteRows p t (s1(p \<mapsto> File [] m)) = Inr (s1(p \<mapsto> File t m))" for t
    using faults(3) by (simp add: write_text_def)
  have s4: "chmod h p file_permissions (s1(p \<mapsto> File t m)) =
      Inr (s1(p \<mapsto> File t file_permissions))" for t
    using faults(4) by (simp add: chmod_def)
  show ?thesis
    using rows
    by (simp add: write_csv_secure_def valid s1 s2 s3 s4 Let_def file_text_def cols [symmetric]
        del: map_append concat.simps list.map)
qed

subsection \<open>The host of the scenarios\<close>

lemma posix_host_simps:
  "resolve (posix_host cwd) = posix_resolve cwd"
  "os_name (posix_host cwd) = ''posix''"
  "create_mode (posix_host cwd) = 420"
  "fault (posix_host cwd) st = None"
  by (simp_all add: posix_host_def)

lemma validate_out_csv:
  "validate_filepath (posix_host [''work'']) ''out.csv'' = Inr [''work'', ''out.csv'']"
  by (simp add: validate_filepath_def posix_host_simps posix_resolve_def startswith_def
      path_suffix_def path_name_def lower_def lower_char_def)

lemma validate_t_csv:
  "validate_filepath (posix_host [''work'']) ''t.csv'' = Inr [''work'', ''t.csv'']"
  by (simp add: validate_filepath_def posix_host_simps posix_resolve_def startswith_def
      path_suffix_def path_name_def lower_def lower_char_def)

lemma work_fs_way: "\<not> list_ex (\<lambda>q. is_file (work_fs q)) (ancestors (parent [''work'', f]))"
  by (simp add: ancestors_def parent_def work_fs_def)

lemma work_fs_free: "work_fs [''work'', f] \<noteq> Some Dir"
  by (simp add: work_fs_def)

subsection \<open>Evaluating the sanitizer\<close>

lemma sanitize_cell_str_dangerous:
  "c \<in> dangerous_chars \<Longrightarrow> sanitize_cell (PStr (c # t)) = APOSTROPHE # c # t"
  by (simp add: sanitize_cell_def startswith_any_dangerous)

lemma sanitize_cell_str_safe:
  "c \<notin> dangerous_chars \<Longrightarrow> sanitize_cell (PStr (c # t)) = c # t"
  by (simp add: sanitize_cell_def startswith_any_dangerous)

lemma str_nat_digit: "n < 10 \<Longrightarrow> str_nat n = [digit_char n]"
  by (simp add: str_nat.simps)

lemma str_nat_100: "str_nat 100 = ''100''"
  by (simp add: str_nat.simps [of 100] str_nat.simps [of 10] str_nat_digit digit_char_def)

lemma sanitize_cell_100: "sanitize_cell (PInt 100) = ''100''"
  by (simp add: sanitize_cell_def str_int_def str_nat_100 startswith_any_dangerous
      dangerous_chars_def)

subsection \<open>The scenarios of writing\<close>

text \<open>
  C8. Writing the single row \<^verbatim>\<open>{"name": "=SUM(A1:A10)", "score": 100}\<close> to \<^verbatim>\<open>out.csv\<close>, on
  a host that accepts the path and refuses no step, succeeds and leaves a file whose text
  is the header record with the columns \<^verbatim>\<open>name\<close> and \<^verbatim>\<open>score\<close> and one data record with
  the values \<^verbatim>\<open>'=SUM(A1:A10)\<close> and \<^verbatim>\<open>100\<close>, every field of both wrapped in double quotes,
  the fields separated by commas and each record ended by CR LF.
\<close>

theorem write_csv_secure_scenario:
  assumes "validate_filepath h ''out.csv'' = Inr p"
    and "fault h Mkdir = None" and "fault h OpenWrite = None" and "fault h WriteRows = None"
    and "fault h Chmod = None"
    and "\<not> list_ex (\<lambda>q. is_file (s q)) (ancestors (parent p))"
    and "s p \<noteq> Some Dir"
  shows "fst (write_csv_secure h s ''out.csv''
               [[(''name'', PStr ''=SUM(A1:A10)''), (''score'', PInt 100)]] None perms) = Inr () \<and>
         file_text (snd (write_csv_secure h s ''out.csv''
               [[(''name'', PStr ''=SUM(A1:A10)''), (''score'', PInt 100)]] None perms) p) =
           Some ([DQUOTE] @ ''name'' @ [DQUOTE] @ '','' @ [DQUOTE] @ ''score'' @ [DQUOTE, CR, LF] @
                 [DQUOTE, APOSTROPHE] @ ''=SUM(A1:A10)'' @ [DQUOTE] @ '','' @
                 [DQUOTE] @ ''100'' @ [DQUOTE, CR, LF])"
proof -
  have cols: "[''name'', ''score''] = map (\<lambda>f. sanitize_cell (PStr f))
      (case None of None \<Rightarrow> map fst [(''name'', PStr ''=SUM(A1:A10)''), (''score'', PInt 100)]
       | Some f \<Rightarrow> f)"
    by (simp add: sanitize_cell_str_safe dangerous_chars_def)
  have proj: "sanitized_projection [''name'', ''score'']
      [(''name'', PStr ''=SUM(A1:A10)''), (''score'', PInt 100)] =
      [APOSTROPHE # ''=SUM(A1:A10)'', ''100'']"
    by (simp add: sanitized_projection_def sanitize_cell_str_safe sanitize_cell_str_dangerous
        sanitize_cell_100 dangerous_chars_def)
  show ?thesis
    using write_csv_secure_success [OF assms cols, of "[]" perms]
    by (simp add: proj writerow_def quote_field_def)
qed

text \<open>On the host of the scenarios, in the working directory \<^verbatim>\<open>/work\<close>.\<close>

theorem write_csv_secure_scenario_witness:
  "fst (write_csv_secure (posix_host [''work'']) work_fs ''out.csv''
         [[(''name'', PStr ''=SUM(A1:A10)''), (''score'', PInt 100)]] None 420) = Inr () \<and>
   file_text (snd (write_csv_secure (posix_host [''work'']) work_fs ''out.csv''
         [[(''name'', PStr ''=SUM(A1:A10)''), (''score'', PInt 100)]] None 420)
       [''work'', ''out.csv'']) =
     Some ([DQUOTE] @ ''name'' @ [DQUOTE] @ '','' @ [DQUOTE] @ ''score'' @ [DQUOTE, CR, LF] @
           [DQUOTE, APOSTROPHE] @ ''=SUM(A1:A10)'' @ [DQUOTE] @ '','' @
           [DQUOTE] @ ''100'' @ [DQUOTE, CR, LF])"
  using write_csv_secure_scenario [OF validate_out_csv posix_host_simps(4) posix_host_simps(4)
      posix_host_simps(4) posix_host_simps(4) work_fs_way work_fs_free, of 420]
  by simp

text \<open>
  C10. A non-empty list of rows whose first row is the empty mapping, written without an
  explicit column list, is not rejected: on a host that accepts the path and refuses no
  step the call succeeds, and the file is an empty header record followed by one empty
  record per row. The empty-data \<^verbatim>\<open>ValueError\<close> is raised exactly when the list of rows
  is empty.
\<close>

theorem write_csv_secure_empty_first_row:
  assumes "validate_filepath h filepath = Inr p"
    and "fault h Mkdir = None" and "fault h OpenWrite = None" and "fault h WriteRows = None"
    and "fault h Chmod = None"
    and "\<not> list_ex (\<lambda>q. is_file (s q)) (ancestors (parent p))"
    and "s p \<noteq> Some Dir"
  shows "fst (write_csv_secure h s filepath ([] # rest) None perms) = Inr () \<and>
         file_text (snd (write_csv_secure h s filepath ([] # rest) None perms) p) =
           Some ([CR, LF] @ concat (map (\<lambda>r. [CR, LF]) ([] # rest))) \<and>
         (\<forall>h' s' path data fieldnames.
            (fst (write_csv_secure h' s' path data fieldnames perms) =
               Inl (ValueError ''Data cannot be empty'')) = (data = []))"
proof -
  have cols: "[] = map (\<lambda>f. sanitize_cell (PStr f))
      (case None of None \<Rightarrow> map fst ([] :: row) | Some f \<Rightarrow> f)"
    by simp
  have empty: "writerow (sanitized_projection [] r) = [CR, LF]" for r
    by (simp add: sanitized_projection_def writerow_def)
  have written: "fst (write_csv_secure h s filepath ([] # rest) None perms) = Inr () \<and>
         file_text (snd (write_csv_secure h s filepath ([] # rest) None perms) p) =
           Some ([CR, LF] @ concat (map (\<lambda>r. [CR, LF]) ([] # rest)))"
    using write_csv_secure_success [OF assms cols, of rest perms]
    by (simp add: empty) (simp add: writerow_def)
  have "(fst (write_csv_secure h' s' path data fieldnames perms) =
          Inl (ValueError ''Data cannot be empty'')) = (data = [])" for h' s' path data fieldnames
  proof (cases data)
    case Nil
    then show ?thesis by (simp add: write_csv_secure_def)
  next
    case (Cons row0 rows)
    then show ?thesis
      by (simp add: write_csv_secure_def validate_filepath_def Let_def io_error_def
          resolve_error_not_empty_data split: sum.splits if_splits)
  qed
  with written show ?thesis by blast
qed

text \<open>Two rows, the first empty: three empty records.\<close>

theorem write_csv_secure_empty_first_row_witness:
  "fst (write_csv_secure (posix_host [''work'']) work_fs ''t.csv'' [[], [(''a'', PInt 100)]] None 420)
     = Inr () \<and>
   file_text (snd (write_csv_secure (posix_host [''work'']) work_fs ''t.csv''
       [[], [(''a'', PInt 100)]] None 420) [''work'', ''t.csv'']) = Some [CR, LF, CR, LF, CR, LF]"
  using write_csv_secure_empty_first_row [OF validate_t_csv posix_host_simps(4)
      posix_host_simps(4) posix_host_simps(4) posix_host_simps(4) work_fs_way work_fs_free,
      of "[[(''a'', PInt 100)]]" 420]
  by simp

lemma refusing_host_simps:
  "resolve (refusing_host step) = posix_resolve [''work'']"
  "os_name (refusing_host step) = ''posix''"
  "fault (refusing_host step) st = (if st = step then Some (HostError ''Permission denied'') else None)"
  by (simp_all add: refusing_host_def posix_host_def)

lemma validate_refusing:
  "validate_filepath (refusing_host step) ''new/out.csv'' = Inr [''work'', ''new'', ''out.csv'']"
  "validate_filepath (refusing_host step) ''t.csv'' = Inr [''work'', ''t.csv'']"
  by (simp_all add: validate_filepath_def refusing_host_simps posix_resolve_def startswith_def
      path_suffix_def path_name_def lower_def lower_char_def)

section \<open>Properties of appending\<close>

lemma reader_writerow_a: "dictreader_fieldnames (writerow [''=a'']) = Inr (Some [''=a''])"
  by (simp add: dictreader_fieldnames_def writerow_def quote_field_def parse_save_field_def
      parse_add_char_def)

lemma reader_writerow_sanitized_a:
  "dictreader_fieldnames (writerow [APOSTROPHE # ''=a'', ''b''] @ writerow [''1'', ''2'']) =
     Inr (Some [APOSTROPHE # ''=a'', ''b''])"
  by (simp add: dictreader_fieldnames_def writerow_def quote_field_def parse_save_field_def
      parse_add_char_def)

lemma append_csv_secure_success:
  assumes valid: "validate_filepath h filepath = Inr p"
    and node: "s p = Some (File content m)"
    and header: "dictreader_fieldnames content = Inr (Some (c # cs))"
    and faults: "fault h OpenRead = None" "fault h ReadHeader = None" "fault h OpenAppend = None"
      "fault h AppendRows = None"
  shows "append_csv_secure h s filepath (row0 # rest) =
    (Inr (), s(p \<mapsto> File (content @
        concat (map (\<lambda>r. writerow (sanitized_projection (c # cs) r)) (row0 # rest))) m))"
proof -
  have rd: "read_text h p s = Inr content"
    using node faults by (simp add: read_text_def)
  have op: "open_append h p s = Inr s"
    using node faults by (simp add: open_append_def)
  have wr: "write_text h AppendRows p t s = Inr (s(p \<mapsto> File (content @ t) m))" for t
    using node faults by (simp add: write_text_def)
  have rows: "writerows (c # cs) (map sanitize_row (row0 # rest)) =
      concat (map (\<lambda>r. writerow (sanitized_projection (c # cs) r)) (row0 # rest))"
    by (simp add: writerows_def dict_to_list_sanitize_row comp_def)
  show ?thesis
    using rows
    by (simp add: append_csv_secure_def valid node header rd op wr Let_def
        del: map_append concat.simps list.map)
qed

lemma sanitize_cell_small_int:
  "0 \<le> i \<Longrightarrow> i < 10 \<Longrightarrow> sanitize_cell (PInt i) = [digit_char (nat i)]"
proof -
  assume i: "0 \<le> i" "i < 10"
  then have n: "nat i < 10" by simp
  have "''0123456789'' ! nat i \<in> set ''0123456789''"
    using n by (intro nth_mem) simp
  then have "digit_char (nat i) \<notin> dangerous_chars"
    using n by (auto simp: digit_char_def dangerous_chars_def)
  then show ?thesis
    using i n by (simp add: sanitize_cell_def str_int_def str_nat_digit startswith_any_dangerous)
qed

text \<open>
  C6, as the code has it. In appending, the column names are those of the header record
  of the existing file, used as the reader returns them; of every new row both the keys
  and the values are sanitized, and the row is projected on the columns by its sanitized
  keys (\<open>sanitized_projection\<close>): keys whose sanitized form is no column are dropped,
  columns that no sanitized key names are blank. On a host that accepts the path and
  refuses no step, the records of the new rows are added in input order after the text
  the file had, and the header is not written again.
\<close>

theorem append_csv_secure_projection:
  assumes "validate_filepath h filepath = Inr p"
    and "s p = Some (File content m)"
    and "dictreader_fieldnames content = Inr (Some columns)" and "columns \<noteq> []"
    and "fault h OpenRead = None" and "fault h ReadHeader = None"
    and "fault h OpenAppend = None" and "fault h AppendRows = None"
    and "data \<noteq> []"
  shows "append_csv_secure h s filepath data =
    (Inr (), s(p \<mapsto> File (content @
        concat (map (\<lambda>r. writerow (sanitized_projection columns r)) data)) m))"
proof -
  obtain c cs where c: "columns = c # cs"
    using assms(4) by (cases columns) auto
  obtain row0 rest where d: "data = row0 # rest"
    using assms(9) by (cases data) auto
  show ?thesis
    unfolding c d
    using assms(1,2) assms(3) [unfolded c] assms(5-8)
    by (rule append_csv_secure_success)
qed

text \<open>
  C6 as stated fails: the keys of a new row are not matched literally. Against a header
  column \<^verbatim>\<open>=a\<close> the row \<^verbatim>\<open>{"=a": 2}\<close> gives a blank field, since its key has become
  \<^verbatim>\<open>'=a\<close>; against the header \<^verbatim>\<open>'=a\<close> that writing the column \<^verbatim>\<open>=a\<close> produces, the row
  \<^verbatim>\<open>{"=a": 3}\<close> gives the field \<^verbatim>\<open>3\<close>, where literal matching would leave it blank.
\<close>

theorem append_literal_keys_counterexample:
  "file_text (snd (append_csv_secure (posix_host [''work''])
       (work_fs([''work'', ''t.csv''] \<mapsto> File (writerow [''=a'']) 420)) ''t.csv''
       [[(''=a'', PInt 2)]]) [''work'', ''t.csv''])
     \<noteq> Some (writerow [''=a''] @
             concat (map (\<lambda>r. writerow (literal_projection [''=a''] r)) [[(''=a'', PInt 2)]])) \<and>
   file_text (snd (append_csv_secure (posix_host [''work''])
       (work_fs([''work'', ''t.csv''] \<mapsto>
          File (writerow [APOSTROPHE # ''=a'', ''b''] @ writerow [''1'', ''2'']) 420)) ''t.csv''
       [[(''=a'', PInt 3)]]) [''work'', ''t.csv''])
     \<noteq> Some (writerow [APOSTROPHE # ''=a'', ''b''] @ writerow [''1'', ''2''] @
             concat (map (\<lambda>r. writerow (literal_projection [APOSTROPHE # ''=a'', ''b''] r))
                       [[(''=a'', PInt 3)]]))"
proof -
  have code1: "sanitized_projection [''=a''] [(''=a'', PInt 2)] = [[]]"
    by (simp add: sanitized_projection_def sanitize_cell_str_dangerous dangerous_chars_def)
  have claim1: "literal_projection [''=a''] [(''=a'', PInt 2)] = [''2'']"
    by (simp add: literal_projection_def sanitize_cell_small_int digit_char_def)
  have code2: "sanitized_projection [APOSTROPHE # ''=a'', ''b''] [(''=a'', PInt 3)] = [''3'', []]"
    by (simp add: sanitized_projection_def sanitize_cell_str_dangerous dangerous_chars_def
        sanitize_cell_small_int digit_char_def)
  have claim2: "literal_projection [APOSTROPHE # ''=a'', ''b''] [(''=a'', PInt 3)] = [[], []]"
    by (simp add: literal_projection_def)
  have a1: "file_text (snd (append_csv_secure (posix_host [''work''])
       (work_fs([''work'', ''t.csv''] \<mapsto> File (writerow [''=a'']) 420)) ''t.csv''
       [[(''=a'', PInt 2)]]) [''work'', ''t.csv'']) = Some (writerow [''=a''] @ writerow [[]])"
    by (subst append_csv_secure_success [OF validate_t_csv _ reader_writerow_a
          posix_host_simps(4) posix_host_simps(4) posix_host_simps(4) posix_host_simps(4)])
       (simp_all add: code1 file_text_def)
  have a2: "file_text (snd (append_csv_secure (posix_host [''work''])
       (work_fs([''work'', ''t.csv''] \<mapsto>
          File (writerow [APOSTROPHE # ''=a'', ''b''] @ writerow [''1'', ''2'']) 420)) ''t.csv''
       [[(''=a'', PInt 3)]]) [''work'', ''t.csv'']) =
     Some (writerow [APOSTROPHE # ''=a'', ''b''] @ writerow [''1'', ''2''] @ writerow [''3'', []])"
    by (subst append_csv_secure_success [OF validate_t_csv _ reader_writerow_sanitized_a
          posix_host_simps(4) posix_host_simps(4) posix_host_simps(4) posix_host_simps(4)])
       (simp_all add: code2 file_text_def)
  have d1: "writerow [[]] \<noteq> writerow [''2'']"
    by (simp add: writerow_def quote_field_def)
  have d2: "writerow [''3'', []] \<noteq> writerow [[], []]"
    by (simp add: writerow_def quote_field_def)
  show ?thesis
    unfolding a1 a2 by (simp add: claim1 claim2 d1 d2)
qed

text \<open>
  Appending \<^verbatim>\<open>{"=a": 3, "zz": 7}\<close> to a file with the columns \<^verbatim>\<open>'=a\<close> and \<^verbatim>\<open>b\<close>: the record
  \<^verbatim>\<open>"3",""\<close> is added.
\<close>

theorem append_csv_secure_projection_witness:
  "append_csv_secure (posix_host [''work''])
       (work_fs([''work'', ''t.csv''] \<mapsto>
          File (writerow [APOSTROPHE # ''=a'', ''b''] @ writerow [''1'', ''2'']) 420)) ''t.csv''
       [[(''=a'', PInt 3), (''zz'', PInt 7)]] =
     (Inr (), (work_fs([''work'', ''t.csv''] \<mapsto>
          File (writerow [APOSTROPHE # ''=a'', ''b''] @ writerow [''1'', ''2'']) 420))
        ([''work'', ''t.csv''] \<mapsto>
          File ((writerow [APOSTROPHE # ''=a'', ''b''] @ writerow [''1'', ''2'']) @
                writerow [''3'', []]) 420))"
proof -
  have proj: "sanitized_projection [APOSTROPHE # ''=a'', ''b''] [(''=a'', PInt 3), (''zz'', PInt 7)]
      = [''3'', []]"
    by (simp add: sanitized_projection_def sanitize_cell_str_dangerous sanitize_cell_str_safe
        dangerous_chars_def sanitize_cell_small_int digit_char_def)
  have node: "(work_fs([''work'', ''t.csv''] \<mapsto>
          File (writerow [APOSTROPHE # ''=a'', ''b''] @ writerow [''1'', ''2'']) 420))
        [''work'', ''t.csv''] =
      Some (File (writerow [APOSTROPHE # ''=a'', ''b''] @ writerow [''1'', ''2'']) 420)"
    by simp
  show ?thesis
    using append_csv_secure_projection
      [where h = "posix_host [''work'']" and filepath = "''t.csv''" and p = "[''work'', ''t.csv'']"
        and s = "work_fs([''work'', ''t.csv''] \<mapsto>
          File (writerow [APOSTROPHE # ''=a'', ''b''] @ writerow [''1'', ''2'']) 420)"
        and data = "[[(''=a'', PInt 3), (''zz'', PInt 7)]]",
        OF validate_t_csv node reader_writerow_sanitized_a _
        posix_host_simps(4) posix_host_simps(4) posix_host_simps(4) posix_host_simps(4)]
    by (simp add: proj del: fun_upd_apply)
qed

section \<open>Collisions of sanitized names\<close>

text \<open>
  C9. Sanitizing is not injective: \<^verbatim>\<open>=a\<close> and \<^verbatim>\<open>'=a\<close> both become \<^verbatim>\<open>'=a\<close>. So two keys of
  one row that sanitize to the same name collapse to one key of the sanitized row, which
  holds the value of the later one; and in writing, the two column names \<^verbatim>\<open>=a\<close> and
  \<^verbatim>\<open>'=a\<close> of the row \<^verbatim>\<open>{"=a": 1, "'=a": 2}\<close> become the same header name twice, both
  columns showing the later value 2, the value 1 being lost.
\<close>

theorem sanitize_cell_collision:
  "\<not> inj sanitize_cell \<and>
   (sanitize_cell (PStr k1) = sanitize_cell (PStr k2) \<longrightarrow>
      map_of (sanitize_row (r @ [(k1, v1), (k2, v2)])) (sanitize_cell (PStr k1)) =
        Some (sanitize_cell v2) \<and>
      distinct (map fst (sanitize_row (r @ [(k1, v1), (k2, v2)])))) \<and>
   file_text (snd (write_csv_secure (posix_host [''work'']) work_fs ''t.csv''
       [[(''=a'', PInt 1), (APOSTROPHE # ''=a'', PInt 2)]] None 420) [''work'', ''t.csv'']) =
     Some (writerow [APOSTROPHE # ''=a'', APOSTROPHE # ''=a''] @ writerow [''2'', ''2''])"
proof -
  have "sanitize_cell (PStr ''=a'') = sanitize_cell (PStr (APOSTROPHE # ''=a''))"
    by (simp add: sanitize_cell_str_dangerous sanitize_cell_str_safe dangerous_chars_def)
  moreover have "PStr ''=a'' \<noteq> PStr (APOSTROPHE # ''=a'')"
    by simp
  ultimately have noninj: "\<not> inj sanitize_cell"
    by (metis injD)
  have cols: "[APOSTROPHE # ''=a'', APOSTROPHE # ''=a''] = map (\<lambda>f. sanitize_cell (PStr f))
      (case None of None \<Rightarrow> map fst [(''=a'', PInt 1), (APOSTROPHE # ''=a'', PInt 2)]
       | Some f \<Rightarrow> f)"
    by (simp add: sanitize_cell_str_dangerous sanitize_cell_str_safe dangerous_chars_def)
  have proj: "sanitized_projection [APOSTROPHE # ''=a'', APOSTROPHE # ''=a'']
      [(''=a'', PInt 1), (APOSTROPHE # ''=a'', PInt 2)] = [''2'', ''2'']"
    by (simp add: sanitized_projection_def sanitize_cell_str_dangerous sanitize_cell_str_safe
        dangerous_chars_def sanitize_cell_small_int digit_char_def)
  have written: "file_text (snd (write_csv_secure (posix_host [''work'']) work_fs ''t.csv''
       [[(''=a'', PInt 1), (APOSTROPHE # ''=a'', PInt 2)]] None 420) [''work'', ''t.csv'']) =
     Some (writerow [APOSTROPHE # ''=a'', APOSTROPHE # ''=a''] @ writerow [''2'', ''2''])"
    using write_csv_secure_success [OF validate_t_csv posix_host_simps(4) posix_host_simps(4)
        posix_host_simps(4) posix_host_simps(4) work_fs_way work_fs_free cols, of "[]" 420]
    by (simp add: proj)
  from noninj written show ?thesis
    by (simp add: map_of_sanitize_row distinct_sanitize_row)
qed

text \<open>The two keys \<^verbatim>\<open>=a\<close> and \<^verbatim>\<open>'=a\<close> in one row.\<close>

theorem sanitize_cell_collision_witness:
  "sanitize_cell (PStr ''=a'') = sanitize_cell (PStr (APOSTROPHE # ''=a'')) \<and>
   ''=a'' \<noteq> APOSTROPHE # ''=a'' \<and>
   map_of (sanitize_row [(''=a'', PInt 1), (APOSTROPHE # ''=a'', PInt 2)]) (APOSTROPHE # ''=a'') =
     Some ''2'' \<and>
   length (sanitize_row [(''=a'', PInt 1), (APOSTROPHE # ''=a'', PInt 2)]) = 1"
proof -
  have eq: "sanitize_cell (PStr ''=a'') = sanitize_cell (PStr (APOSTROPHE # ''=a''))"
    by (simp add: sanitize_cell_str_dangerous sanitize_cell_str_safe dangerous_chars_def)
  have k: "sanitize_cell (PStr ''=a'') = APOSTROPHE # ''=a''"
    by (simp add: sanitize_cell_str_dangerous dangerous_chars_def)
  have v: "sanitize_cell (PInt 2) = ''2''"
    by (simp add: sanitize_cell_small_int digit_char_def)
  have len: "length (sanitize_row [(''=a'', PInt 1), (APOSTROPHE # ''=a'', PInt 2)]) = 1"
    by (simp add: sanitize_row_def dict_of_def k eq [symmetric])
  from sanitize_cell_collision [of "''=a''" "APOSTROPHE # ''=a''" "[]" "PInt 1" "PInt 2"] eq
  have "map_of (sanitize_row ([] @ [(''=a'', PInt 1), (APOSTROPHE # ''=a'', PInt 2)]))
      (sanitize_cell (PStr ''=a'')) = Some (sanitize_cell (PInt 2))"
    by blast
  then show ?thesis
    using eq len by (simp add: k v)
qed

section \<open>Failures of I/O steps\<close>

text \<open>
  C7, as the code has it. No refused I/O step is swallowed: the call fails with the
  host's error \<open>e\<close>. In writing, a refused open, write or permission change is rejected
  with the \<^verbatim>\<open>IOError\<close> (kind io-failure) whose message is \<^verbatim>\<open>Failed to write CSV file: \<close>
  followed by the text of \<open>e\<close> and whose cause is \<open>e\<close>. The directory creation of writing
  is outside the \<^verbatim>\<open>try\<close>, and appending has none: a refused directory creation in
  writing, and a refused open for reading, read of the header, open for appending or
  write in appending, raise the host's error \<open>e\<close> itself, not wrapped.
\<close>

theorem io_failure_propagation:
  assumes "validate_filepath h filepath = Inr p"
  shows
    "(fault h Mkdir = Some e \<longrightarrow>
        write_csv_secure h s filepath (row0 # rest) fieldnames perms = (Inl (OSError e), s)) \<and>
     (mkdir_parents h (parent p) s = Inr s1 \<and> fault h OpenWrite = Some e \<longrightarrow>
        write_csv_secure h s filepath (row0 # rest) fieldnames perms =
          (Inl (IOError (''Failed to write CSV file: '' @ host_error_text e) e), s1)) \<and>
     (mkdir_parents h (parent p) s = Inr s1 \<and> open_write h p s1 = Inr s2 \<and>
      fault h WriteRows = Some e \<longrightarrow>
        write_csv_secure h s filepath (row0 # rest) fieldnames perms =
          (Inl (IOError (''Failed to write CSV file: '' @ host_error_text e) e), s2)) \<and>
     (mkdir_parents h (parent p) s = Inr s1 \<and> open_write h p s1 = Inr s2 \<and>
      fault h WriteRows = None \<and> os_name h \<noteq> ''nt'' \<and> fault h Chmod = Some e \<longrightarrow>
        fst (write_csv_secure h s filepath (row0 # rest) fieldnames perms) =
          Inl (IOError (''Failed to write CSV file: '' @ host_error_text e) e)) \<and>
     (s p = Some (File content m) \<and> fault h OpenRead = Some e \<longrightarrow>
        append_csv_secure h s filepath (row0 # rest) = (Inl (OSError e), s)) \<and>
     (s p = Some (File content m) \<and> fault h OpenRead = None \<and> fault h ReadHeader = Some e \<longrightarrow>
        append_csv_secure h s filepath (row0 # rest) = (Inl (OSError e), s)) \<and>
     (s p = Some (File content m) \<and> fault h OpenRead = None \<and> fault h ReadHeader = None \<and>
      dictreader_fieldnames content = Inr (Some (c # cs)) \<and> fault h OpenAppend = Some e \<longrightarrow>
        append_csv_secure h s filepath (row0 # rest) = (Inl (OSError e), s)) \<and>
     (s p = Some (File content m) \<and> fault h OpenRead = None \<and> fault h ReadHeader = None \<and>
      dictreader_fieldnames content = Inr (Some (c # cs)) \<and> fault h OpenAppend = None \<and>
      fault h AppendRows = Some e \<longrightarrow>
        append_csv_secure h s filepath (row0 # rest) = (Inl (OSError e), s))"
proof (intro conjI impI)
  assume "fault h Mkdir = Some e"
  then show "write_csv_secure h s filepath (row0 # rest) fieldnames perms = (Inl (OSError e), s)"
    by (simp add: write_csv_secure_def assms mkdir_parents_def)
next
  assume "mkdir_parents h (parent p) s = Inr s1 \<and> fault h OpenWrite = Some e"
  then show "write_csv_secure h s filepath (row0 # rest) fieldnames perms =
          (Inl (IOError (''Failed to write CSV file: '' @ host_error_text e) e), s1)"
    by (simp add: write_csv_secure_def assms open_write_def io_error_def)
next
  assume "mkdir_parents h (parent p) s = Inr s1 \<and> open_write h p s1 = Inr s2 \<and>
      fault h WriteRows = Some e"
  then show "write_csv_secure h s filepath (row0 # rest) fieldnames perms =
          (Inl (IOError (''Failed to write CSV file: '' @ host_error_text e) e), s2)"
    by (simp add: write_csv_secure_def assms write_text_def io_error_def)
next
  assume a: "mkdir_parents h (parent p) s = Inr s1 \<and> open_write h p s1 = Inr s2 \<and>
      fault h WriteRows = None \<and> os_name h \<noteq> ''nt'' \<and> fault h Chmod = Some e"
  then have "\<exists>m. s2 p = Some (File [] m)"
    by (auto simp: open_write_def split: option.splits node.splits)
  then obtain m where "s2 p = Some (File [] m)" by blast
  then have "write_text h WriteRows p t s2 = Inr (s2(p \<mapsto> File t m))" for t
    using a by (simp add: write_text_def)
  with a show "fst (write_csv_secure h s filepath (row0 # rest) fieldnames perms) =
          Inl (IOError (''Failed to write CSV file: '' @ host_error_text e) e)"
    by (simp add: write_csv_secure_def assms chmod_def io_error_def Let_def)
next
  assume "s p = Some (File content m) \<and> fault h OpenRead = Some e"
  then show "append_csv_secure h s filepath (row0 # rest) = (Inl (OSError e), s)"
    by (simp add: append_csv_secure_def assms read_text_def)
next
  assume "s p = Some (File content m) \<and> fault h OpenRead = None \<and> fault h ReadHeader = Some e"
  then show "append_csv_secure h s filepath (row0 # rest) = (Inl (OSError e), s)"
    by (simp add: append_csv_secure_def assms read_text_def)
next
  assume "s p = Some (File content m) \<and> fault h OpenRead = None \<and> fault h ReadHeader = None \<and>
      dictreader_fieldnames content = Inr (Some (c # cs)) \<and> fault h OpenAppend = Some e"
  then show "append_csv_secure h s filepath (row0 # rest) = (Inl (OSError e), s)"
    by (simp add: append_csv_secure_def assms read_text_def open_append_def)
next
  assume "s p = Some (File content m) \<and> fault h OpenRead = None \<and> fault h ReadHeader = None \<and>
      dictreader_fieldnames content = Inr (Some (c # cs)) \<and> fault h OpenAppend = None \<and>
      fault h AppendRows = Some e"
  then show "append_csv_secure h s filepath (row0 # rest) = (Inl (OSError e), s)"
    by (simp add: append_csv_secure_def assms read_text_def open_append_def write_text_def)
qed


text \<open>
  C7 as stated fails: when the host refuses to create the directory in writing, or to
  open the file for appending, the call does not raise the \<^verbatim>\<open>IOError\<close> that wraps the
  host's error.
\<close>

theorem io_failure_counterexample:
  "fault (refusing_host Mkdir) Mkdir = Some (HostError ''Permission denied'') \<and>
   \<not> rejects_io_failure
       (fst (write_csv_secure (refusing_host Mkdir) work_fs ''new/out.csv''
              [[(''a'', PInt 1)]] None 420))
       (HostError ''Permission denied'') \<and>
   fault (refusing_host OpenAppend) OpenAppend = Some (HostError ''Permission denied'') \<and>
   \<not> rejects_io_failure
       (fst (append_csv_secure (refusing_host OpenAppend)
              (work_fs([''work'', ''t.csv''] \<mapsto> File (writerow [''=a'']) 420)) ''t.csv''
              [[(''=a'', PInt 2)]]))
       (HostError ''Permission denied'')"
proof -
  have w: "fst (write_csv_secure (refusing_host Mkdir) work_fs ''new/out.csv''
              [[(''a'', PInt 1)]] None 420) = Inl (OSError (HostError ''Permission denied''))"
    by (simp add: write_csv_secure_def validate_refusing mkdir_parents_def refusing_host_simps)
  have a: "fst (append_csv_secure (refusing_host OpenAppend)
              (work_fs([''work'', ''t.csv''] \<mapsto> File (writerow [''=a'']) 420)) ''t.csv''
              [[(''=a'', PInt 2)]]) = Inl (OSError (HostError ''Permission denied''))"
    by (simp add: append_csv_secure_def validate_refusing read_text_def reader_writerow_a
        open_append_def refusing_host_simps)
  show ?thesis
    unfolding w a by (simp add: rejects_io_failure_def refusing_host_simps)
qed

text \<open>
  Hosts that refuse, one each, the directory creation, the open and the permission change
  of writing, and the write of appending.
\<close>

theorem io_failure_propagation_witness:
  "fst (write_csv_secure (refusing_host Mkdir) work_fs ''new/out.csv''
         [[(''a'', PInt 1)]] None 420) = Inl (OSError (HostError ''Permission denied'')) \<and>
   fst (write_csv_secure (refusing_host OpenWrite) work_fs ''new/out.csv''
         [[(''a'', PInt 1)]] None 420) =
     Inl (IOError ''Failed to write CSV file: Permission denied''
            (HostError ''Permission denied'')) \<and>
   fst (write_csv_secure (refusing_host Chmod) work_fs ''new/out.csv''
         [[(''a'', PInt 1)]] None 420) =
     Inl (IOError ''Failed to write CSV file: Permission denied''
            (HostError ''Permission denied'')) \<and>
   fst (append_csv_secure (refusing_host AppendRows)
         (work_fs([''work'', ''t.csv''] \<mapsto> File (writerow [''=a'']) 420)) ''t.csv''
         [[(''=a'', PInt 2)]]) = Inl (OSError (HostError ''Permission denied''))"
proof -
  let ?p = "[''work'', ''new'', ''out.csv'']"
  let ?e = "HostError ''Permission denied''"
  have way: "\<not> list_ex (\<lambda>q. is_file (work_fs q)) (ancestors (parent ?p))"
    by (simp add: ancestors_def parent_def work_fs_def)
  have 1: "fst (write_csv_secure (refusing_host Mkdir) work_fs ''new/out.csv''
         [[(''a'', PInt 1)]] None 420) = Inl (OSError ?e)"
    using io_failure_propagation [OF validate_refusing(1), where step1 = Mkdir and e = ?e
        and s = work_fs and ?row0.0 = "[(''a'', PInt 1)]" and rest = "[]" and fieldnames = None
        and perms = 420]
    by (simp add: refusing_host_simps)
  obtain s1 where s1: "mkdir_parents (refusing_host OpenWrite) (parent ?p) work_fs = Inr s1"
    using mkdir_parents_ok [OF _ way, of "refusing_host OpenWrite"]
    by (auto simp: refusing_host_simps)
  have 2: "fst (write_csv_secure (refusing_host OpenWrite) work_fs ''new/out.csv''
         [[(''a'', PInt 1)]] None 420) =
     Inl (IOError ''Failed to write CSV file: Permission denied'' ?e)"
    using io_failure_propagation [OF validate_refusing(1), where step1 = OpenWrite and e = ?e
        and s = work_fs and ?s1.0 = s1 and ?row0.0 = "[(''a'', PInt 1)]" and rest = "[]"
        and fieldnames = None and perms = 420] s1
    by (simp add: refusing_host_simps)
  obtain t1 where t1: "mkdir_parents (refusing_host Chmod) (parent ?p) work_fs = Inr t1"
      and t1p: "t1 ?p = work_fs ?p"
    using mkdir_parents_ok [OF _ way, of "refusing_host Chmod"]
    by (auto simp: refusing_host_simps)
  have t2: "open_write (refusing_host Chmod) ?p t1 =
      Inr (t1(?p \<mapsto> File [] (create_mode (refusing_host Chmod))))"
    using t1p by (simp add: open_write_def refusing_host_simps work_fs_def)
  have 3: "fst (write_csv_secure (refusing_host Chmod) work_fs ''new/out.csv''
         [[(''a'', PInt 1)]] None 420) =
     Inl (IOError ''Failed to write CSV file: Permission denied'' ?e)"
    using io_failure_propagation [OF validate_refusing(1), where step1 = Chmod and e = ?e
        and s = work_fs and ?s1.0 = t1
        and ?s2.0 = "t1(?p \<mapsto> File [] (create_mode (refusing_host Chmod)))"
        and ?row0.0 = "[(''a'', PInt 1)]" and rest = "[]"
        and fieldnames = None and perms = 420] t1 t2
    by (simp add: refusing_host_simps)
  have 4: "fst (append_csv_secure (refusing_host AppendRows)
         (work_fs([''work'', ''t.csv''] \<mapsto> File (writerow [''=a'']) 420)) ''t.csv''
         [[(''=a'', PInt 2)]]) = Inl (OSError ?e)"
    using io_failure_propagation [OF validate_refusing(2), where step1 = AppendRows and e = ?e
        and s = "work_fs([''work'', ''t.csv''] \<mapsto> File (writerow [''=a'']) 420)"
        and content = "writerow [''=a'']" and m = 420 and c = "''=a''" and cs = "[]"
        and ?row0.0 = "[(''=a'', PInt 2)]" and rest = "[]"] reader_writerow_a
    by (simp add: refusing_host_simps)
  from 1 2 3 4 show ?thesis by blast
qed

end
